theory Spec2Isabelle
  imports Main "HOL-Library.Word"
begin

section \<open>The hybrid PoS-to-PoA consensus engine (package hybrid)\<close>

text \<open>
  A shallow embedding of the Go package \<^verbatim>\<open>consensus/hybrid\<close>: the struct
  \<^verbatim>\<open>Hybrid\<close>, its constructor and every method of the consensus-engine interface
  it implements. The two wrapped engines are opaque: each is a record of reply functions,
  and every call the hybrid makes on one of them is appended to a trace, which is what
  "delegates to" and "was invoked" are read from (the tests of the package count calls on
  mock engines in the same way). A reply may depend on everything that was called before.

  Log output (\<^verbatim>\<open>log.Info\<close>, \<^verbatim>\<open>log.Debug\<close>, ...) has no influence on any value the
  package returns or stores and is left out; the three diagnostic fields the logging code
  writes are kept. The read lock of \<^verbatim>\<open>shouldUsePoA\<close> has no sequential effect.
\<close>

subsection \<open>Data\<close>

type_synonym byte = "8 word"
type_synonym uint64 = "64 word"

text \<open>\<^verbatim>\<open>common.Address\<close> is \<^verbatim>\<open>[20]byte\<close>.\<close>

definition AddressLength :: nat where
  "AddressLength = 20"

typedef address = "{bs :: byte list. length bs = 20}"
  morphisms addressBytes Address
  by (rule exI [of _ "replicate 20 0"]) simp

text \<open>A Go \<^verbatim>\<open>error\<close> value is represented by its message; \<open>None\<close> is \<^verbatim>\<open>nil\<close>.\<close>

type_synonym error = string

text \<open>Calling a method on a nil engine interface is a run-time panic.\<close>

datatype panic = NilPointerDereference

text \<open>
  Opaque arguments the hybrid only passes on (the chain reader, the state database, a
  block body, the receipts, the channels of \<^verbatim>\<open>Seal\<close>) are handles.
\<close>

type_synonym handle = nat
type_synonym hash = "byte list"

text \<open>
  \<^verbatim>\<open>types.Header\<close>: the hybrid reads the block number only through
  \<^verbatim>\<open>header.Number.Uint64()\<close>, so \<open>Number\<close> holds that value; it writes \<open>Extra\<close>;
  \<open>OtherFields\<close> stands for all the fields it never touches.
\<close>

record header =
  Number :: uint64
  Extra :: "byte list"
  OtherFields :: handle

record block =
  BlockHeader :: header
  BlockBody :: handle

text \<open>A channel: whether it is closed, what is buffered in it, and its capacity.\<close>

record 'a chan =
  closed :: bool
  buffered :: "'a list"
  capacity :: nat

subsection \<open>The wrapped engines\<close>

datatype engine_id = PoS | PoA

datatype call =
    CallAuthor header
  | CallVerifyHeader handle header
  | CallVerifyHeaders handle "header list"
  | CallVerifyUncles handle block
  | CallPrepare handle header
  | CallFinalize handle header handle handle
  | CallFinalizeAndAssemble handle header handle handle handle
  | CallSeal handle block handle handle
  | CallSealHash header
  | CallCalcDifficulty handle uint64 header
  | CallClose

type_synonym trace = "(engine_id \<times> call) list"

text \<open>
  \<^verbatim>\<open>consensus.Engine\<close>. Every method gets the trace of the calls made so far.
  \<^verbatim>\<open>Prepare\<close> receives a pointer to the header and may rewrite it: it returns the
  header as it leaves it.
\<close>

record engine =
  eAuthor :: "trace \<Rightarrow> header \<Rightarrow> address \<times> error option"
  eVerifyHeader :: "trace \<Rightarrow> handle \<Rightarrow> header \<Rightarrow> error option"
  eVerifyHeaders :: "trace \<Rightarrow> handle \<Rightarrow> header list \<Rightarrow> unit chan \<times> error option chan"
  eVerifyUncles :: "trace \<Rightarrow> handle \<Rightarrow> block \<Rightarrow> error option"
  ePrepare :: "trace \<Rightarrow> handle \<Rightarrow> header \<Rightarrow> header \<times> error option"
  eFinalizeAndAssemble ::
    "trace \<Rightarrow> handle \<Rightarrow> header \<Rightarrow> handle \<Rightarrow> handle \<Rightarrow> handle \<Rightarrow> block option \<times> error option"
  eSeal :: "trace \<Rightarrow> handle \<Rightarrow> block \<Rightarrow> handle \<Rightarrow> handle \<Rightarrow> error option"
  eSealHash :: "trace \<Rightarrow> header \<Rightarrow> hash"
  eCalcDifficulty :: "trace \<Rightarrow> handle \<Rightarrow> uint64 \<Rightarrow> header \<Rightarrow> int"
  eClose :: "trace \<Rightarrow> error option"

subsection \<open>The struct Hybrid and its constructor\<close>

text \<open>
  \<^verbatim>\<open>time.Time\<close> is a count of nanoseconds from the zero time; \<^verbatim>\<open>Time.Sub\<close> saturates
  at the bounds of \<^verbatim>\<open>time.Duration\<close> (an int64).
\<close>

type_synonym time = int

definition Second :: int where
  "Second = 1000000000"

definition Sub :: "time \<Rightarrow> time \<Rightarrow> int" where
  "Sub t u =
     (let d = t - u
      in if d > 2 ^ 63 - 1 then 2 ^ 63 - 1 else if d < - (2 ^ 63) then - (2 ^ 63) else d)"

record hybrid =
  posEngine :: "engine option"
  poaEngine :: "engine option"
  transitionBlock :: uint64
  initialSigners :: "address list"
  transitionLogged :: bool
  lastLoggedEngine :: string
  lastLogTime :: time

definition ErrInvalidTransitionBlock :: error where
  "ErrInvalidTransitionBlock = ''invalid PoS to PoA transition block''"

definition ErrMissingEngine :: error where
  "ErrMissingEngine = ''missing consensus engine''"

definition defaultInitialSigners :: "address list" where
  "defaultInitialSigners =
     [Address [0x12, 0x34, 0x56, 0x78, 0x90, 0x12, 0x34, 0x56, 0x78, 0x90,
               0x12, 0x34, 0x56, 0x78, 0x90, 0x12, 0x34, 0x56, 0x78, 0x90],
      Address [0x23, 0x45, 0x67, 0x89, 0x01, 0x23, 0x45, 0x67, 0x89, 0x01,
               0x23, 0x45, 0x67, 0x89, 0x01, 0x23, 0x45, 0x67, 0x89, 0x01],
      Address [0x34, 0x56, 0x78, 0x90, 0x12, 0x34, 0x56, 0x78, 0x90, 0x12,
               0x34, 0x56, 0x78, 0x90, 0x12, 0x34, 0x56, 0x78, 0x90, 0x12]]"

definition New :: "engine option \<Rightarrow> engine option \<Rightarrow> uint64 \<Rightarrow> error + hybrid" where
  "New pos poa transition =
     (if pos = None then Inl ErrMissingEngine
      else if poa = None then Inl ErrMissingEngine
      else Inr \<lparr>posEngine = pos, poaEngine = poa, transitionBlock = transition,
                initialSigners = defaultInitialSigners, transitionLogged = False,
                lastLoggedEngine = [], lastLogTime = 0\<rparr>)"

subsection \<open>Engine selection\<close>

definition shouldUsePoA :: "hybrid \<Rightarrow> uint64 \<Rightarrow> bool" where
  "shouldUsePoA h blockNumber = (blockNumber \<ge> transitionBlock h)"

text \<open>
  \<^verbatim>\<open>selectEngine\<close> returns one of the two engine fields (named here by which field it
  is) and leaves the diagnostic fields updated; \<open>now\<close> is what \<^verbatim>\<open>time.Now()\<close> gives.
\<close>

definition selectEngine :: "hybrid \<Rightarrow> time \<Rightarrow> uint64 \<Rightarrow> engine_id \<times> hybrid" where
  "selectEngine h now blockNumber =
     (let usePoA = shouldUsePoA h blockNumber;
          h1 = (if blockNumber = transitionBlock h \<and> \<not> transitionLogged h
                then h\<lparr>transitionLogged := True\<rparr> else h);
          currentEngine = (if usePoA then ''PoA'' else ''PoS'');
          h2 = (if lastLoggedEngine h1 \<noteq> currentEngine \<or> Sub now (lastLogTime h1) > 10 * Second
                then h1\<lparr>lastLoggedEngine := currentEngine, lastLogTime := now\<rparr> else h1)
      in (if usePoA then PoA else PoS, h2))"

definition selectEngineFromHeader :: "hybrid \<Rightarrow> time \<Rightarrow> header \<Rightarrow> engine_id \<times> hybrid" where
  "selectEngineFromHeader h now hdr = selectEngine h now (Number hdr)"

fun engineOf :: "hybrid \<Rightarrow> engine_id \<Rightarrow> engine option" where
  "engineOf h PoS = posEngine h"
| "engineOf h PoA = poaEngine h"

text \<open>
  What a method of the hybrid leaves behind: a panic, or its return value together with
  the hybrid (its diagnostic fields may have changed) and the trace of engine calls.
\<close>

type_synonym 'r outcome = "panic + ('r \<times> hybrid \<times> trace)"

subsection \<open>The methods of the consensus-engine interface\<close>

definition Author :: "hybrid \<Rightarrow> trace \<Rightarrow> header \<Rightarrow> (address \<times> error option) outcome" where
  "Author h tr hdr =
     (let blockNumber = Number hdr;
          engine = (if blockNumber < transitionBlock h then PoS else PoA)
      in case engineOf h engine of
           None \<Rightarrow> Inl NilPointerDereference
         | Some e \<Rightarrow> Inr (eAuthor e tr hdr, h, tr @ [(engine, CallAuthor hdr)]))"

definition VerifyHeader :: "hybrid \<Rightarrow> trace \<Rightarrow> handle \<Rightarrow> header \<Rightarrow> error option outcome" where
  "VerifyHeader h tr chain hdr =
     (let blockNumber = Number hdr
      in if blockNumber < transitionBlock h
         then (case posEngine h of
                 None \<Rightarrow> Inl NilPointerDereference
               | Some e \<Rightarrow>
                   Inr (eVerifyHeader e tr chain hdr, h, tr @ [(PoS, CallVerifyHeader chain hdr)]))
         else (case poaEngine h of
                 None \<Rightarrow> Inl NilPointerDereference
               | Some e \<Rightarrow>
                   Inr (eVerifyHeader e tr chain hdr, h, tr @ [(PoA, CallVerifyHeader chain hdr)])))"

text \<open>
  The goroutine of the split path of \<^verbatim>\<open>VerifyHeaders\<close>: one \<^verbatim>\<open>VerifyHeader\<close> per
  header, in order. The caller may close the quit channel at any moment; \<open>quit k\<close> says
  whether the \<open>k\<close>-th \<^verbatim>\<open>select\<close> of the loop (two per header) takes the quit case.
  It returns the results it has sent.
\<close>

fun verifyLoop ::
  "hybrid \<Rightarrow> (nat \<Rightarrow> bool) \<Rightarrow> nat \<Rightarrow> handle \<Rightarrow> header list \<Rightarrow> trace
     \<Rightarrow> panic + (error option list \<times> trace)" where
  "verifyLoop h quit k chain [] tr = Inr ([], tr)"
| "verifyLoop h quit k chain (hdr # rest) tr =
     (if quit k then Inr ([], tr)
      else case VerifyHeader h tr chain hdr of
             Inl p \<Rightarrow> Inl p
           | Inr (err, h', tr') \<Rightarrow>
               if quit (Suc k) then Inr ([], tr')
               else (case verifyLoop h quit (k + 2) chain rest tr' of
                       Inl p \<Rightarrow> Inl p
                     | Inr (errs, tr'') \<Rightarrow> Inr (err # errs, tr'')))"

text \<open>
  \<^verbatim>\<open>VerifyHeaders\<close> returns the quit channel and the results channel. On the split
  path the results channel is given as the goroutine leaves it: closed, holding the
  results it sent.
\<close>

definition VerifyHeaders ::
  "hybrid \<Rightarrow> (nat \<Rightarrow> bool) \<Rightarrow> trace \<Rightarrow> handle \<Rightarrow> header list
     \<Rightarrow> (unit chan \<times> error option chan) outcome" where
  "VerifyHeaders h quit tr chain headers =
     (if length headers = 0
      then Inr ((\<lparr>closed = True, buffered = [], capacity = 0\<rparr>,
                 \<lparr>closed = True, buffered = [], capacity = 1\<rparr>), h, tr)
      else
        let firstBlock = Number (hd headers);
            lastBlock = Number (last headers)
        in if lastBlock < transitionBlock h
           then (case posEngine h of
                   None \<Rightarrow> Inl NilPointerDereference
                 | Some e \<Rightarrow>
                     Inr (eVerifyHeaders e tr chain headers, h,
                          tr @ [(PoS, CallVerifyHeaders chain headers)]))
           else if firstBlock \<ge> transitionBlock h
           then (case poaEngine h of
                   None \<Rightarrow> Inl NilPointerDereference
                 | Some e \<Rightarrow>
                     Inr (eVerifyHeaders e tr chain headers, h,
                          tr @ [(PoA, CallVerifyHeaders chain headers)]))
           else (case verifyLoop h quit 0 chain headers tr of
                   Inl p \<Rightarrow> Inl p
                 | Inr (errs, tr') \<Rightarrow>
                     Inr ((\<lparr>closed = False, buffered = [], capacity = 0\<rparr>,
                           \<lparr>closed = True, buffered = errs, capacity = length headers\<rparr>),
                          h, tr')))"

definition VerifyUncles :: "hybrid \<Rightarrow> trace \<Rightarrow> handle \<Rightarrow> block \<Rightarrow> error option outcome" where
  "VerifyUncles h tr chain blk =
     (let blockNumber = Number (BlockHeader blk);
          engine = (if blockNumber < transitionBlock h then PoS else PoA)
      in case engineOf h engine of
           None \<Rightarrow> Inl NilPointerDereference
         | Some e \<Rightarrow>
             Inr (eVerifyUncles e tr chain blk, h, tr @ [(engine, CallVerifyUncles chain blk)]))"

subsection \<open>Preparing the transition block\<close>

definition extraVanity :: nat where
  "extraVanity = 32"

definition extraSeal :: nat where
  "extraSeal = 65"

text \<open>
  Go's \<^verbatim>\<open>copy(dst[off:], src)\<close>: it copies as many bytes as both slices have and
  leaves the rest of \<open>dst\<close> alone. In \<^verbatim>\<open>prepareTransitionBlock\<close> the offset
  \<open>extraVanity + i * AddressLength\<close> lies within the slice for every signer, since the
  slice was made with room for all of them: the slice expression cannot panic there.
\<close>

definition copy :: "byte list \<Rightarrow> nat \<Rightarrow> byte list \<Rightarrow> byte list" where
  "copy dst off src =
     (let n = min (length dst - off) (length src)
      in take off dst @ take n src @ drop (off + n) dst)"

text \<open>The loop \<^verbatim>\<open>for i, signer := range h.initialSigners\<close>, from index \<open>i\<close> on.\<close>

fun copySigners :: "byte list \<Rightarrow> nat \<Rightarrow> address list \<Rightarrow> byte list" where
  "copySigners extraData i [] = extraData"
| "copySigners extraData i (signer # rest) =
     copySigners (copy extraData (extraVanity + i * AddressLength) (addressBytes signer))
       (Suc i) rest"

definition prepareTransitionBlock ::
  "hybrid \<Rightarrow> trace \<Rightarrow> handle \<Rightarrow> header \<Rightarrow> (header \<times> error option) outcome" where
  "prepareTransitionBlock h tr chain hdr =
     (let extraData0 =
            replicate (extraVanity + length (initialSigners h) * AddressLength + extraSeal) (0 :: byte);
          extraData = copySigners extraData0 0 (initialSigners h);
          hdr1 = hdr\<lparr>Extra := extraData\<rparr>
      in case poaEngine h of
           None \<Rightarrow> Inl NilPointerDereference
         | Some e \<Rightarrow>
             (case ePrepare e tr chain hdr1 of
                (hdr2, err) \<Rightarrow>
                  Inr ((hdr2, if err \<noteq> None then err else None), h,
                       tr @ [(PoA, CallPrepare chain hdr1)])))"

definition Prepare ::
  "hybrid \<Rightarrow> time \<Rightarrow> trace \<Rightarrow> handle \<Rightarrow> header \<Rightarrow> (header \<times> error option) outcome" where
  "Prepare h now tr chain hdr =
     (let blockNumber = Number hdr
      in if blockNumber = transitionBlock h
         then prepareTransitionBlock h tr chain hdr
         else (case selectEngineFromHeader h now hdr of
                 (engine, h') \<Rightarrow>
                   (case engineOf h' engine of
                      None \<Rightarrow> Inl NilPointerDereference
                    | Some e \<Rightarrow>
                        Inr (ePrepare e tr chain hdr, h', tr @ [(engine, CallPrepare chain hdr)]))))"

subsection \<open>The remaining methods\<close>

definition Finalize ::
  "hybrid \<Rightarrow> time \<Rightarrow> trace \<Rightarrow> handle \<Rightarrow> header \<Rightarrow> handle \<Rightarrow> handle \<Rightarrow> unit outcome" where
  "Finalize h now tr chain hdr state body =
     (case selectEngineFromHeader h now hdr of
        (engine, h') \<Rightarrow>
          (case engineOf h' engine of
             None \<Rightarrow> Inl NilPointerDereference
           | Some e \<Rightarrow> Inr ((), h', tr @ [(engine, CallFinalize chain hdr state body)])))"

definition FinalizeAndAssemble ::
  "hybrid \<Rightarrow> time \<Rightarrow> trace \<Rightarrow> handle \<Rightarrow> header \<Rightarrow> handle \<Rightarrow> handle \<Rightarrow> handle
     \<Rightarrow> (block option \<times> error option) outcome" where
  "FinalizeAndAssemble h now tr chain hdr state body receipts =
     (case selectEngineFromHeader h now hdr of
        (engine, h') \<Rightarrow>
          (case engineOf h' engine of
             None \<Rightarrow> Inl NilPointerDereference
           | Some e \<Rightarrow>
               Inr (eFinalizeAndAssemble e tr chain hdr state body receipts, h',
                    tr @ [(engine, CallFinalizeAndAssemble chain hdr state body receipts)])))"

definition Seal ::
  "hybrid \<Rightarrow> time \<Rightarrow> trace \<Rightarrow> handle \<Rightarrow> block \<Rightarrow> handle \<Rightarrow> handle \<Rightarrow> error option outcome" where
  "Seal h now tr chain blk results stop =
     (case selectEngineFromHeader h now (BlockHeader blk) of
        (engine, h') \<Rightarrow>
          (case engineOf h' engine of
             None \<Rightarrow> Inl NilPointerDereference
           | Some e \<Rightarrow>
               Inr (eSeal e tr chain blk results stop, h',
                    tr @ [(engine, CallSeal chain blk results stop)])))"

definition SealHash :: "hybrid \<Rightarrow> time \<Rightarrow> trace \<Rightarrow> header \<Rightarrow> hash outcome" where
  "SealHash h now tr hdr =
     (case selectEngineFromHeader h now hdr of
        (engine, h') \<Rightarrow>
          (case engineOf h' engine of
             None \<Rightarrow> Inl NilPointerDereference
           | Some e \<Rightarrow> Inr (eSealHash e tr hdr, h', tr @ [(engine, CallSealHash hdr)])))"

text \<open>\<open>+\<close> on \<open>uint64\<close> wraps around, as Go's does.\<close>

definition CalcDifficulty ::
  "hybrid \<Rightarrow> time \<Rightarrow> trace \<Rightarrow> handle \<Rightarrow> uint64 \<Rightarrow> header \<Rightarrow> int outcome" where
  "CalcDifficulty h now tr chain tm parent =
     (let nextBlockNumber = Number parent + 1
      in case selectEngine h now nextBlockNumber of
           (engine, h') \<Rightarrow>
             (case engineOf h' engine of
                None \<Rightarrow> Inl NilPointerDereference
              | Some e \<Rightarrow>
                  Inr (eCalcDifficulty e tr chain tm parent, h',
                       tr @ [(engine, CallCalcDifficulty chain tm parent)])))"

text \<open>\<^verbatim>\<open>Close\<close> guards both calls against a nil engine, so it cannot panic.\<close>

definition Close :: "hybrid \<Rightarrow> trace \<Rightarrow> error option \<times> trace" where
  "Close h tr =
     (case (case posEngine h of
              None \<Rightarrow> (None, tr)
            | Some e \<Rightarrow> (eClose e tr, tr @ [(PoS, CallClose)])) of
        (err1, tr1) \<Rightarrow>
          (case (case poaEngine h of
                   None \<Rightarrow> (None, tr1)
                 | Some e \<Rightarrow> (eClose e tr1, tr1 @ [(PoA, CallClose)])) of
             (err2, tr2) \<Rightarrow> (if err1 \<noteq> None then err1 else err2, tr2)))"

subsection \<open>The mock engines of the package's tests\<close>

text \<open>
  \<^verbatim>\<open>mockEngine\<close> of \<^verbatim>\<open>hybrid_test.go\<close>: every method succeeds and changes nothing.
\<close>

definition mockEngine :: engine where
  "mockEngine =
     \<lparr>eAuthor = (\<lambda>tr hdr. (Address (replicate 20 0), None)),
      eVerifyHeader = (\<lambda>tr chain hdr. None),
      eVerifyHeaders = (\<lambda>tr chain headers.
         (\<lparr>closed = True, buffered = [], capacity = 0\<rparr>,
          \<lparr>closed = True, buffered = [], capacity = length headers\<rparr>)),
      eVerifyUncles = (\<lambda>tr chain blk. None),
      ePrepare = (\<lambda>tr chain hdr. (hdr, None)),
      eFinalizeAndAssemble = (\<lambda>tr chain hdr state body receipts. (None, None)),
      eSeal = (\<lambda>tr chain blk results stop. None),
      eSealHash = (\<lambda>tr hdr. replicate 32 0),
      eCalcDifficulty = (\<lambda>tr chain tm parent. 1),
      eClose = (\<lambda>tr. None)\<rparr>"

text \<open>
  \<^verbatim>\<open>trackingMockEngine\<close>: the error configured for a method name, if any, is what the
  method returns (its call counters are the trace).
\<close>

definition trackingMockEngine :: "(string \<Rightarrow> error option) \<Rightarrow> engine" where
  "trackingMockEngine errors =
     \<lparr>eAuthor = (\<lambda>tr hdr. (Address (replicate 20 0), errors ''Author'')),
      eVerifyHeader = (\<lambda>tr chain hdr. errors ''VerifyHeader''),
      eVerifyHeaders = (\<lambda>tr chain headers.
         (\<lparr>closed = True, buffered = [], capacity = 0\<rparr>,
          \<lparr>closed = True,
           buffered = (if errors ''VerifyHeaders'' \<noteq> None
                       then map (\<lambda>_. errors ''VerifyHeaders'') headers else []),
           capacity = length headers\<rparr>)),
      eVerifyUncles = (\<lambda>tr chain blk. errors ''VerifyUncles''),
      ePrepare = (\<lambda>tr chain hdr. (hdr, errors ''Prepare'')),
      eFinalizeAndAssemble = (\<lambda>tr chain hdr state body receipts.
         if errors ''FinalizeAndAssemble'' \<noteq> None then (None, errors ''FinalizeAndAssemble'')
         else (Some \<lparr>BlockHeader = hdr, BlockBody = body\<rparr>, None)),
      eSeal = (\<lambda>tr chain blk results stop. errors ''Seal''),
      eSealHash = (\<lambda>tr hdr. replicate 32 0),
      eCalcDifficulty = (\<lambda>tr chain tm parent. 1),
      eClose = (\<lambda>tr. errors ''Close'')\<rparr>"

subsection \<open>Reading a trace\<close>

text \<open>The engines called since the trace was \<open>tr\<close>, in order; \<open>None\<close> after a panic.\<close>

definition enginesCalled :: "trace \<Rightarrow> 'r outcome \<Rightarrow> engine_id list option" where
  "enginesCalled tr out =
     (case out of
        Inl p \<Rightarrow> None
      | Inr (r, h', tr') \<Rightarrow> if take (length tr) tr' = tr then Some (map fst (drop (length tr) tr')) else None)"

text \<open>Exactly one engine call was made, and it went to engine \<open>e\<close>.\<close>

definition delegatesTo :: "engine_id \<Rightarrow> trace \<Rightarrow> 'r outcome \<Rightarrow> bool" where
  "delegatesTo e tr out = (enginesCalled tr out = Some [e])"

text \<open>The calls made since the trace was \<open>tr\<close>.\<close>

definition newCalls :: "trace \<Rightarrow> 'r outcome \<Rightarrow> trace" where
  "newCalls tr out = (case out of Inl p \<Rightarrow> [] | Inr (r, h', tr') \<Rightarrow> drop (length tr) tr')"

definition returned :: "'r outcome \<Rightarrow> 'r option" where
  "returned out = (case out of Inl p \<Rightarrow> None | Inr (r, h', tr') \<Rightarrow> Some r)"



text \<open>A caller that never closes the quit channel.\<close>

definition neverQuit :: "nat \<Rightarrow> bool" where
  "neverQuit k = False"

text \<open>The hybrid after a series of earlier \<^verbatim>\<open>selectEngine\<close> calls, each with its clock.\<close>

fun afterSelections :: "hybrid \<Rightarrow> (time \<times> uint64) list \<Rightarrow> hybrid" where
  "afterSelections h [] = h"
| "afterSelections h (c # rest) = afterSelections (snd (selectEngine h (fst c) (snd c))) rest"

text \<open>
  The layout the specification gives for the transition block's extra field:
  32 zero bytes of vanity, the signers' addresses in order, 65 zero bytes of seal.
\<close>

definition checkpointExtra :: "address list \<Rightarrow> byte list" where
  "checkpointExtra signers =
     replicate 32 0 @ concat (map addressBytes signers) @ replicate 65 0"

text \<open>
  The setup of the package's tests: \<^verbatim>\<open>New(posEngine, poaEngine, transitionBlock)\<close> on
  two tracking mock engines with the given configured errors.
\<close>

definition testHybrid ::
  "(string \<Rightarrow> error option) \<Rightarrow> (string \<Rightarrow> error option) \<Rightarrow> uint64 \<Rightarrow> hybrid" where
  "testHybrid posErrors poaErrors transition =
     \<lparr>posEngine = Some (trackingMockEngine posErrors),
      poaEngine = Some (trackingMockEngine poaErrors),
      transitionBlock = transition,
      initialSigners = defaultInitialSigners, transitionLogged = False,
      lastLoggedEngine = [], lastLogTime = 0\<rparr>"

definition noErrors :: "string \<Rightarrow> error option" where
  "noErrors method = None"

definition closeFails :: "string \<Rightarrow> error option" where
  "closeFails method = (if method = ''Close'' then Some ''close failed'' else None)"

definition testHeader :: "uint64 \<Rightarrow> header" where
  "testHeader n = \<lparr>Number = n, Extra = [], OtherFields = 0\<rparr>"

section \<open>Validation of the chain configuration (package params)\<close>








section \<open>Shared facts\<close>

subsection \<open>Engine selection\<close>

lemma selectEngine_fst:
  "fst (selectEngine h now n) = (if transitionBlock h \<le> n then PoA else PoS)"
  by (simp add: selectEngine_def shouldUsePoA_def Let_def)

lemma selectEngine_keeps:
  "posEngine (snd (selectEngine h now n)) = posEngine h"
  "poaEngine (snd (selectEngine h now n)) = poaEngine h"
  "transitionBlock (snd (selectEngine h now n)) = transitionBlock h"
  "initialSigners (snd (selectEngine h now n)) = initialSigners h"
  by (simp_all add: selectEngine_def Let_def)

lemma afterSelections_keeps:
  "posEngine (afterSelections h cs) = posEngine h \<and>
   poaEngine (afterSelections h cs) = poaEngine h \<and>
   transitionBlock (afterSelections h cs) = transitionBlock h \<and>
   initialSigners (afterSelections h cs) = initialSigners h"
  by (induction cs arbitrary: h) (simp_all add: selectEngine_keeps)

lemma engineOf_afterSelections: "engineOf (afterSelections h cs) e = engineOf h e"
  by (cases e) (simp_all add: afterSelections_keeps)

lemma New_engines:
  assumes "New pos poa transition = Inr h"
  shows "\<exists>pe ae. posEngine h = Some pe \<and> poaEngine h = Some ae \<and> transitionBlock h = transition \<and>
           initialSigners h = defaultInitialSigners"
  using assms by (auto simp: New_def split: if_splits)

lemma New_missing_engine:
  "New None poa transition = Inl ErrMissingEngine" "New pos None transition = Inl ErrMissingEngine"
  by (simp_all add: New_def)

lemma testHybrid_is_New:
  "New (Some (trackingMockEngine a)) (Some (trackingMockEngine b)) transition =
     Inr (testHybrid a b transition)"
  by (simp add: New_def testHybrid_def)

lemma enginesCalled_one: "enginesCalled tr (Inr (r, h', tr @ [(e, c)])) = Some [e]"
  by (simp add: enginesCalled_def)

lemma delegatesTo_by_era:
  fixes n H :: uint64
  assumes "enginesCalled tr out = Some [if n < H then PoS else PoA]"
  shows "delegatesTo PoS tr out = (n < H) \<and> delegatesTo PoA tr out = (H \<le> n)"
  using assms by (auto simp: delegatesTo_def)

lemma uint64_max: "(18446744073709551615 :: uint64) = - 1"
  by simp

lemma uint64_max_le: "(18446744073709551615 :: uint64) \<le> x \<longleftrightarrow> x = 18446744073709551615"
  unfolding uint64_max by (simp add: word_order.extremum_unique)

lemma le_uint64_max: "(x :: uint64) \<le> 18446744073709551615"
  unfolding uint64_max by simp

subsection \<open>Which engine each method calls\<close>

lemma Author_called:
  assumes "posEngine h = Some pe" and "poaEngine h = Some ae"
  shows "enginesCalled tr (Author h tr hdr) =
     Some [if Number hdr < transitionBlock h then PoS else PoA]"
  using assms by (simp add: Author_def Let_def enginesCalled_one)

lemma VerifyHeader_eq:
  assumes "posEngine h = Some pe" and "poaEngine h = Some ae"
  shows "VerifyHeader h tr chain hdr =
     Inr (eVerifyHeader (if Number hdr < transitionBlock h then pe else ae) tr chain hdr, h,
          tr @ [(if Number hdr < transitionBlock h then PoS else PoA, CallVerifyHeader chain hdr)])"
  using assms by (simp add: VerifyHeader_def Let_def)

lemma VerifyHeader_called:
  assumes "posEngine h = Some pe" and "poaEngine h = Some ae"
  shows "enginesCalled tr (VerifyHeader h tr chain hdr) =
     Some [if Number hdr < transitionBlock h then PoS else PoA]"
  by (simp only: VerifyHeader_eq [OF assms] enginesCalled_one)

lemma VerifyUncles_called:
  assumes "posEngine h = Some pe" and "poaEngine h = Some ae"
  shows "enginesCalled tr (VerifyUncles h tr chain blk) =
     Some [if Number (BlockHeader blk) < transitionBlock h then PoS else PoA]"
  using assms by (simp add: VerifyUncles_def Let_def enginesCalled_one)

lemma Finalize_called:
  assumes "posEngine h = Some pe" and "poaEngine h = Some ae"
  shows "enginesCalled tr (Finalize h now tr chain hdr state body) =
     Some [if Number hdr < transitionBlock h then PoS else PoA]"
  by (simp add: Finalize_def selectEngineFromHeader_def split_beta assms selectEngine_keeps
        enginesCalled_one selectEngine_fst not_le [symmetric])

lemma FinalizeAndAssemble_called:
  assumes "posEngine h = Some pe" and "poaEngine h = Some ae"
  shows "enginesCalled tr (FinalizeAndAssemble h now tr chain hdr state body receipts) =
     Some [if Number hdr < transitionBlock h then PoS else PoA]"
  by (simp add: FinalizeAndAssemble_def selectEngineFromHeader_def split_beta assms
        selectEngine_keeps enginesCalled_one selectEngine_fst not_le [symmetric])

lemma Seal_called:
  assumes "posEngine h = Some pe" and "poaEngine h = Some ae"
  shows "enginesCalled tr (Seal h now tr chain blk results stop) =
     Some [if Number (BlockHeader blk) < transitionBlock h then PoS else PoA]"
  by (simp add: Seal_def selectEngineFromHeader_def split_beta assms selectEngine_keeps
        enginesCalled_one selectEngine_fst not_le [symmetric])

lemma SealHash_called:
  assumes "posEngine h = Some pe" and "poaEngine h = Some ae"
  shows "enginesCalled tr (SealHash h now tr hdr) =
     Some [if Number hdr < transitionBlock h then PoS else PoA]"
  by (simp add: SealHash_def selectEngineFromHeader_def split_beta assms selectEngine_keeps
        enginesCalled_one selectEngine_fst not_le [symmetric])

lemma CalcDifficulty_eq:
  assumes "engineOf h (if Number parent + 1 < transitionBlock h then PoS else PoA) = Some e"
  shows "CalcDifficulty h now tr chain tm parent =
     Inr (eCalcDifficulty e tr chain tm parent, snd (selectEngine h now (Number parent + 1)),
          tr @ [(if Number parent + 1 < transitionBlock h then PoS else PoA,
                 CallCalcDifficulty chain tm parent)])"
  using assms
  by (simp add: CalcDifficulty_def Let_def split_beta selectEngine_keeps selectEngine_fst
        not_le [symmetric] split: if_splits)

lemma CalcDifficulty_called:
  assumes "posEngine h = Some pe" and "poaEngine h = Some ae"
  shows "enginesCalled tr (CalcDifficulty h now tr chain tm parent) =
     Some [if Number parent + 1 < transitionBlock h then PoS else PoA]"
proof -
  have "engineOf h (if Number parent + 1 < transitionBlock h then PoS else PoA) =
          Some (if Number parent + 1 < transitionBlock h then pe else ae)"
    using assms by simp
  then show ?thesis
    by (simp only: CalcDifficulty_eq enginesCalled_one)
qed

subsection \<open>The extra field of the transition block\<close>

lemma length_addressBytes: "length (addressBytes a) = 20"
  using addressBytes [of a] by simp

lemma length_concat_addresses: "length (concat (map addressBytes xs)) = 20 * length xs"
  by (induction xs) (simp_all add: length_addressBytes)

lemma copy_slot:
  assumes "length mid = length src"
  shows "copy (pre @ mid @ post) (length pre) src = pre @ src @ post"
  using assms by (simp add: copy_def Let_def)

lemma copySigners_fill:
  "copySigners
     (replicate 32 0 @ concat (map addressBytes filled) @ replicate (20 * length rest + 65) 0)
     (length filled) rest =
   replicate 32 0 @ concat (map addressBytes (filled @ rest)) @ replicate 65 0"
proof (induction rest arbitrary: filled)
  case Nil
  show ?case by simp
next
  case (Cons signer rest)
  let ?pre = "replicate 32 (0 :: byte) @ concat (map addressBytes filled)"
  let ?post = "replicate (20 * length rest + 65) (0 :: byte)"
  have off: "extraVanity + length filled * AddressLength = length ?pre"
    by (simp add: extraVanity_def AddressLength_def length_concat_addresses)
  have slots: "replicate (20 * length (signer # rest) + 65) (0 :: byte) = replicate 20 0 @ ?post"
    by (simp add: replicate_add [symmetric])
  have "copy (?pre @ replicate 20 0 @ ?post) (length ?pre) (addressBytes signer) =
          ?pre @ addressBytes signer @ ?post"
    by (rule copy_slot) (simp add: length_addressBytes)
  then have step: "copy (replicate 32 0 @ concat (map addressBytes filled) @
              replicate (20 * length (signer # rest) + 65) 0)
          (extraVanity + length filled * AddressLength) (addressBytes signer) =
        replicate 32 0 @ concat (map addressBytes (filled @ [signer])) @ ?post"
    unfolding off slots by simp
  show ?case
    using Cons.IH [of "filled @ [signer]"] by (simp only: copySigners.simps step) simp
qed

lemma copySigners_checkpoint:
  "copySigners (replicate (extraVanity + length signers * AddressLength + extraSeal) 0) 0 signers =
     checkpointExtra signers"
proof -
  have "replicate (extraVanity + length signers * AddressLength + extraSeal) (0 :: byte) =
          replicate 32 0 @ concat (map addressBytes []) @ replicate (20 * length signers + 65) 0"
    by (simp add: extraVanity_def AddressLength_def extraSeal_def replicate_add [symmetric])
  then show ?thesis
    using copySigners_fill [of "[]" signers] by (simp add: checkpointExtra_def)
qed


lemma prepareTransitionBlock_eq:
  assumes "poaEngine h = Some ae"
  shows "prepareTransitionBlock h tr chain hdr =
     Inr (ePrepare ae tr chain (hdr\<lparr>Extra := checkpointExtra (initialSigners h)\<rparr>), h,
          tr @ [(PoA, CallPrepare chain (hdr\<lparr>Extra := checkpointExtra (initialSigners h)\<rparr>))])"
proof -
  obtain hdr2 err where
    r: "ePrepare ae tr chain (hdr\<lparr>Extra := checkpointExtra (initialSigners h)\<rparr>) = (hdr2, err)"
    by (cases "ePrepare ae tr chain (hdr\<lparr>Extra := checkpointExtra (initialSigners h)\<rparr>)")
  show ?thesis
    using assms by (simp add: prepareTransitionBlock_def Let_def copySigners_checkpoint r)
qed

lemma prepareTransitionBlock_forgets:
  "prepareTransitionBlock h tr chain (hdr\<lparr>Extra := old\<rparr>) = prepareTransitionBlock h tr chain hdr"
  by (simp add: prepareTransitionBlock_def Let_def)

lemma Prepare_called:
  assumes "posEngine h = Some pe" and "poaEngine h = Some ae"
  shows "enginesCalled tr (Prepare h now tr chain hdr) =
     Some [if Number hdr < transitionBlock h then PoS else PoA]"
proof (cases "Number hdr = transitionBlock h")
  case True
  then show ?thesis
    by (simp add: Prepare_def Let_def prepareTransitionBlock_eq [OF assms(2)] enginesCalled_one)
next
  case False
  then show ?thesis
    by (simp add: Prepare_def Let_def selectEngineFromHeader_def split_beta assms selectEngine_keeps
        enginesCalled_one selectEngine_fst not_le [symmetric])
qed

subsection \<open>Batches\<close>



lemma sorted_straddle_ends:
  assumes "sorted (map Number headers)"
    and "a \<in> set headers" and "Number a < H"
    and "b \<in> set headers" and "H \<le> Number b"
  shows "Number (hd headers) < H \<and> H \<le> Number (last headers)"
proof -
  have ne: "headers \<noteq> []" using assms(2) by auto
  have "Number (hd headers) \<le> Number a"
    using assms(1,2) ne by (cases headers) auto
  moreover have "Number b \<le> Number (last headers)"
  proof -
    obtain i where i: "i < length headers" "headers ! i = b"
      using assms(4) by (auto simp: in_set_conv_nth)
    have "map Number headers ! i \<le> map Number headers ! (length headers - 1)"
      using assms(1) i ne by (intro sorted_nth_mono) auto
    then show ?thesis using i ne by (simp add: last_conv_nth)
  qed
  ultimately show ?thesis using assms(3,5) by auto
qed

section \<open>The claims\<close>

text \<open>
  C1. For every block number and transition height, and whatever the diagnostic fields
  hold (also after any number of earlier selections, as in a reorg), each method that
  works on one block calls exactly one engine: the PoS engine exactly when the block
  number is below the transition height, the PoA engine exactly when it is at or above
  it. \<^verbatim>\<open>CalcDifficulty\<close> takes the parent's number plus one as its block number. With
  height 0 every block goes to the PoA engine; with height \<open>2^64 - 1\<close> only that one block.
\<close>

theorem dispatch_by_block_number:
  assumes pos: "posEngine h = Some pe" and poa: "poaEngine h = Some ae"
  shows
    "delegatesTo PoS tr (Author h tr hdr) = (Number hdr < transitionBlock h) \<and>
     delegatesTo PoA tr (Author h tr hdr) = (transitionBlock h \<le> Number hdr) \<and>
     delegatesTo PoS tr (VerifyHeader h tr chain hdr) = (Number hdr < transitionBlock h) \<and>
     delegatesTo PoA tr (VerifyHeader h tr chain hdr) = (transitionBlock h \<le> Number hdr) \<and>
     delegatesTo PoS tr (VerifyUncles h tr chain blk) =
       (Number (BlockHeader blk) < transitionBlock h) \<and>
     delegatesTo PoA tr (VerifyUncles h tr chain blk) =
       (transitionBlock h \<le> Number (BlockHeader blk)) \<and>
     delegatesTo PoS tr (Prepare h now tr chain hdr) = (Number hdr < transitionBlock h) \<and>
     delegatesTo PoA tr (Prepare h now tr chain hdr) = (transitionBlock h \<le> Number hdr) \<and>
     delegatesTo PoS tr (Finalize h now tr chain hdr state body) =
       (Number hdr < transitionBlock h) \<and>
     delegatesTo PoA tr (Finalize h now tr chain hdr state body) =
       (transitionBlock h \<le> Number hdr) \<and>
     delegatesTo PoS tr (FinalizeAndAssemble h now tr chain hdr state body receipts) =
       (Number hdr < transitionBlock h) \<and>
     delegatesTo PoA tr (FinalizeAndAssemble h now tr chain hdr state body receipts) =
       (transitionBlock h \<le> Number hdr) \<and>
     delegatesTo PoS tr (Seal h now tr chain blk results stop) =
       (Number (BlockHeader blk) < transitionBlock h) \<and>
     delegatesTo PoA tr (Seal h now tr chain blk results stop) =
       (transitionBlock h \<le> Number (BlockHeader blk)) \<and>
     delegatesTo PoS tr (SealHash h now tr hdr) = (Number hdr < transitionBlock h) \<and>
     delegatesTo PoA tr (SealHash h now tr hdr) = (transitionBlock h \<le> Number hdr) \<and>
     delegatesTo PoS tr (CalcDifficulty h now tr chain tm parent) =
       (Number parent + 1 < transitionBlock h) \<and>
     delegatesTo PoA tr (CalcDifficulty h now tr chain tm parent) =
       (transitionBlock h \<le> Number parent + 1) \<and>
     delegatesTo PoS tr (VerifyHeader (afterSelections h served) tr chain hdr) =
       (Number hdr < transitionBlock h) \<and>
     delegatesTo PoA tr (VerifyHeader (afterSelections h served) tr chain hdr) =
       (transitionBlock h \<le> Number hdr) \<and>
     (transitionBlock h = 0 \<longrightarrow> delegatesTo PoA tr (VerifyHeader h tr chain hdr)) \<and>
     (transitionBlock h = 18446744073709551615 \<longrightarrow>
        delegatesTo PoA tr (VerifyHeader h tr chain hdr) = (Number hdr = 18446744073709551615))"
proof -
  note era = delegatesTo_by_era
  have served: "posEngine (afterSelections h served) = Some pe"
      "poaEngine (afterSelections h served) = Some ae"
      "transitionBlock (afterSelections h served) = transitionBlock h"
    using pos poa by (simp_all add: afterSelections_keeps)
  have vh: "delegatesTo PoS tr (VerifyHeader h tr chain hdr) = (Number hdr < transitionBlock h) \<and>
      delegatesTo PoA tr (VerifyHeader h tr chain hdr) = (transitionBlock h \<le> Number hdr)"
    by (rule era [OF VerifyHeader_called [OF pos poa]])
  have vs: "delegatesTo PoS tr (VerifyHeader (afterSelections h served) tr chain hdr) =
        (Number hdr < transitionBlock h) \<and>
      delegatesTo PoA tr (VerifyHeader (afterSelections h served) tr chain hdr) =
        (transitionBlock h \<le> Number hdr)"
    using era [OF VerifyHeader_called [OF served(1,2), of tr chain hdr]] by (simp only: served(3))
  have zero: "transitionBlock h = 0 \<longrightarrow> delegatesTo PoA tr (VerifyHeader h tr chain hdr)"
    using vh by simp
  have top: "transitionBlock h = 18446744073709551615 \<longrightarrow>
      delegatesTo PoA tr (VerifyHeader h tr chain hdr) = (Number hdr = 18446744073709551615)"
    using vh by (simp add: uint64_max_le)
  show ?thesis
    using era [OF Author_called [OF pos poa, of tr hdr]] vh
      era [OF VerifyUncles_called [OF pos poa, of tr chain blk]]
      era [OF Prepare_called [OF pos poa, of tr now chain hdr]]
      era [OF Finalize_called [OF pos poa, of tr now chain hdr state body]]
      era [OF FinalizeAndAssemble_called [OF pos poa, of tr now chain hdr state body receipts]]
      era [OF Seal_called [OF pos poa, of tr now chain blk results stop]]
      era [OF SealHash_called [OF pos poa, of tr now hdr]]
      era [OF CalcDifficulty_called [OF pos poa, of tr now chain tm parent]]
      vs zero top
    by blast
qed

theorem dispatch_by_block_number_witness:
  "delegatesTo PoS [] (VerifyHeader (testHybrid noErrors noErrors 100) [] 0 (testHeader 50)) \<and>
   delegatesTo PoA [] (VerifyHeader (testHybrid noErrors noErrors 100) [] 0 (testHeader 100)) \<and>
   delegatesTo PoS []
     (VerifyHeader (afterSelections (testHybrid noErrors noErrors 100) [(7, 150), (8, 100)]) [] 0
        (testHeader 99)) \<and>
   delegatesTo PoA [] (Author (testHybrid noErrors noErrors 0) [] (testHeader 0))"
proof -
  have e: "posEngine (testHybrid noErrors noErrors H) = Some (trackingMockEngine noErrors)"
    "poaEngine (testHybrid noErrors noErrors H) = Some (trackingMockEngine noErrors)"
    "transitionBlock (testHybrid noErrors noErrors H) = H" for H
    by (simp_all add: testHybrid_def)
  have "delegatesTo PoS [] (VerifyHeader (testHybrid noErrors noErrors 100) [] 0 (testHeader 50))"
    using dispatch_by_block_number [OF e(1,2), where tr = "[]" and hdr = "testHeader 50" and H1 = 100]
    by (simp add: e(3) testHeader_def)
  moreover have
    "delegatesTo PoA [] (VerifyHeader (testHybrid noErrors noErrors 100) [] 0 (testHeader 100))"
    using dispatch_by_block_number [OF e(1,2), where tr = "[]" and hdr = "testHeader 100" and H1 = 100]
    by (simp add: e(3) testHeader_def)
  moreover have "delegatesTo PoS []
     (VerifyHeader (afterSelections (testHybrid noErrors noErrors 100) [(7, 150), (8, 100)]) [] 0
        (testHeader 99))"
    using dispatch_by_block_number [OF e(1,2), where tr = "[]" and hdr = "testHeader 99"
        and H1 = 100 and served = "[(7, 150), (8, 100)]"]
    by (simp add: e(3) testHeader_def)
  moreover have "delegatesTo PoA [] (Author (testHybrid noErrors noErrors 0) [] (testHeader 0))"
    using dispatch_by_block_number [OF e(1,2), where tr = "[]" and hdr = "testHeader 0" and H1 = 0]
    by (simp add: e(3) testHeader_def)
  ultimately show ?thesis by simp
qed








text \<open>
  C4. \<^verbatim>\<open>Close\<close> closes both engines, the PoS engine first and the PoA engine whatever
  the first call returned. It returns the PoS engine's error when there is one, else what
  the PoA engine's \<^verbatim>\<open>Close\<close> returned: the first error of the two, and nil when both
  succeed.
\<close>

theorem Close_closes_both:
  assumes pos: "posEngine h = Some pe" and poa: "poaEngine h = Some ae"
  shows
    "snd (Close h tr) = tr @ [(PoS, CallClose), (PoA, CallClose)] \<and>
     fst (Close h tr) =
       (case eClose pe tr of
          Some e \<Rightarrow> Some e
        | None \<Rightarrow> eClose ae (tr @ [(PoS, CallClose)])) \<and>
     (eClose pe tr \<noteq> None \<and> eClose ae (tr @ [(PoS, CallClose)]) = None
        \<longrightarrow> fst (Close h tr) = eClose pe tr) \<and>
     (eClose pe tr = None \<and> eClose ae (tr @ [(PoS, CallClose)]) = None
        \<longrightarrow> fst (Close h tr) = None)"
  using pos poa by (auto simp: Close_def split: option.splits)

theorem Close_closes_both_witness:
  "Close (testHybrid closeFails noErrors 100) [] =
     (Some ''close failed'', [(PoS, CallClose), (PoA, CallClose)]) \<and>
   Close (testHybrid noErrors noErrors 100) [] = (None, [(PoS, CallClose), (PoA, CallClose)])"
proof -
  have e: "posEngine (testHybrid a b 100) = Some (trackingMockEngine a)"
    "poaEngine (testHybrid a b 100) = Some (trackingMockEngine b)" for a b
    by (simp_all add: testHybrid_def)
  have c: "eClose (trackingMockEngine closeFails) tr = Some ''close failed''"
    "eClose (trackingMockEngine noErrors) tr = None" for tr
    by (simp_all add: trackingMockEngine_def closeFails_def noErrors_def)
  have "fst (Close (testHybrid closeFails noErrors 100) []) = Some ''close failed'' \<and>
      snd (Close (testHybrid closeFails noErrors 100) []) = [(PoS, CallClose), (PoA, CallClose)]"
    using Close_closes_both [OF e, of closeFails noErrors "[]"] by (simp add: c)
  moreover have "fst (Close (testHybrid noErrors noErrors 100) []) = None \<and>
      snd (Close (testHybrid noErrors noErrors 100) []) = [(PoS, CallClose), (PoA, CallClose)]"
    using Close_closes_both [OF e, of noErrors noErrors "[]"] by (simp add: c)
  ultimately show ?thesis
    by (simp add: prod_eq_iff)
qed





text \<open>
  C6. Which engine \<^verbatim>\<open>selectEngine\<close> returns depends on the block number and the
  transition height alone: it is the same whatever the three diagnostic fields hold,
  whatever the clock shows, and after any series of earlier selections (which leave both
  engine fields and the transition height as they were).
\<close>

theorem selectEngine_pure:
  "fst (selectEngine h now n) = (if transitionBlock h \<le> n then PoA else PoS) \<and>
   fst (selectEngine
          (h\<lparr>transitionLogged := logged, lastLoggedEngine := name, lastLogTime := at\<rparr>) now' n) =
     fst (selectEngine h now n) \<and>
   fst (selectEngine (afterSelections h served) now' n) = fst (selectEngine h now n) \<and>
   engineOf (afterSelections h served) (fst (selectEngine (afterSelections h served) now' n)) =
     engineOf h (fst (selectEngine h now n))"
  by (simp add: selectEngine_fst afterSelections_keeps engineOf_afterSelections)

theorem selectEngine_pure_witness:
  "fst (selectEngine (testHybrid noErrors noErrors 100) 0 50) = PoS \<and>
   fst (selectEngine
          (afterSelections (testHybrid noErrors noErrors 100) [(1, 100), (2, 150), (3, 99)])
          20000000000 50) = PoS \<and>
   fst (selectEngine
          ((testHybrid noErrors noErrors 100)
             \<lparr>transitionLogged := True, lastLoggedEngine := ''PoA'', lastLogTime := 5\<rparr>) 7 100) =
     PoA"
proof -
  have tb: "transitionBlock (testHybrid noErrors noErrors 100) = 100"
    by (simp add: testHybrid_def)
  have "fst (selectEngine (testHybrid noErrors noErrors 100) 0 50) = PoS \<and>
      fst (selectEngine
          (afterSelections (testHybrid noErrors noErrors 100) [(1, 100), (2, 150), (3, 99)])
          20000000000 50) = PoS"
    using selectEngine_pure [where h = "testHybrid noErrors noErrors 100" and now = 0 and n = 50
        and now' = 20000000000 and served = "[(1, 100), (2, 150), (3, 99)]"]
    by (simp add: tb)
  moreover have "fst (selectEngine
          ((testHybrid noErrors noErrors 100)
             \<lparr>transitionLogged := True, lastLoggedEngine := ''PoA'', lastLogTime := 5\<rparr>) 7 100) =
     PoA"
    using selectEngine_pure [where h = "testHybrid noErrors noErrors 100" and now = 7 and n = 100
        and logged = True and name = "''PoA''" and at = 5 and now' = 7]
    by (simp add: tb)
  ultimately show ?thesis by blast
qed


text \<open>
  C7. \<^verbatim>\<open>CalcDifficulty\<close> selects the engine by the parent's number plus one (an
  unsigned 64-bit sum): it calls the PoA engine if and only if that number is at or above
  the transition height, else the PoS engine, and returns the called engine's result as it
  is.
\<close>

theorem CalcDifficulty_by_next_number:
  assumes pos: "posEngine h = Some pe" and poa: "poaEngine h = Some ae"
  shows
    "CalcDifficulty h now tr chain tm parent =
       (if transitionBlock h \<le> Number parent + 1
        then Inr (eCalcDifficulty ae tr chain tm parent,
                  snd (selectEngine h now (Number parent + 1)),
                  tr @ [(PoA, CallCalcDifficulty chain tm parent)])
        else Inr (eCalcDifficulty pe tr chain tm parent,
                  snd (selectEngine h now (Number parent + 1)),
                  tr @ [(PoS, CallCalcDifficulty chain tm parent)])) \<and>
     delegatesTo PoA tr (CalcDifficulty h now tr chain tm parent) =
       (transitionBlock h \<le> Number parent + 1) \<and>
     returned (CalcDifficulty h now tr chain tm parent) =
       Some (eCalcDifficulty (if transitionBlock h \<le> Number parent + 1 then ae else pe)
               tr chain tm parent)"
proof -
  have e: "engineOf h (if Number parent + 1 < transitionBlock h then PoS else PoA) =
      Some (if Number parent + 1 < transitionBlock h then pe else ae)"
    using pos poa by simp
  show ?thesis
    by (simp add: CalcDifficulty_eq [OF e] delegatesTo_def enginesCalled_one returned_def
        not_le [symmetric])
qed

theorem CalcDifficulty_by_next_number_witness:
  "delegatesTo PoA []
     (CalcDifficulty (testHybrid noErrors noErrors 100) 0 [] 0 0 (testHeader 99)) \<and>
   returned (CalcDifficulty (testHybrid noErrors noErrors 100) 0 [] 0 0 (testHeader 98)) =
     Some 1 \<and>
   newCalls [] (CalcDifficulty (testHybrid noErrors noErrors 100) 0 [] 0 0 (testHeader 98)) =
     [(PoS, CallCalcDifficulty 0 0 (testHeader 98))]"
proof -
  let ?h = "testHybrid noErrors noErrors 100"
  have e: "posEngine ?h = Some (trackingMockEngine noErrors)"
    "poaEngine ?h = Some (trackingMockEngine noErrors)"
    by (simp_all add: testHybrid_def)
  have tb: "transitionBlock ?h = 100"
    by (simp add: testHybrid_def)
  have d: "eCalcDifficulty (trackingMockEngine noErrors) tr chain tm p = 1" for tr chain tm p
    by (simp add: trackingMockEngine_def)
  note at99 = CalcDifficulty_by_next_number [OF e, of 0 "[]" 0 0 "testHeader 99"]
  note at98 = CalcDifficulty_by_next_number [OF e, of 0 "[]" 0 0 "testHeader 98"]
  have "delegatesTo PoA [] (CalcDifficulty ?h 0 [] 0 0 (testHeader 99))"
    using at99 [THEN conjunct2, THEN conjunct1] by (simp add: tb testHeader_def)
  moreover have "returned (CalcDifficulty ?h 0 [] 0 0 (testHeader 98)) = Some 1"
    using at98 [THEN conjunct2, THEN conjunct2] by (simp add: tb d testHeader_def)
  moreover have "CalcDifficulty ?h 0 [] 0 0 (testHeader 98) =
      Inr (1, snd (selectEngine ?h 0 99), [(PoS, CallCalcDifficulty 0 0 (testHeader 98))])"
    using at98 [THEN conjunct1] by (simp add: tb d testHeader_def)
  then have "newCalls [] (CalcDifficulty ?h 0 [] 0 0 (testHeader 98)) =
      [(PoS, CallCalcDifficulty 0 0 (testHeader 98))]"
    by (simp add: newCalls_def)
  ultimately show ?thesis by blast
qed

text \<open>
  C8. On an empty batch \<^verbatim>\<open>VerifyHeaders\<close> returns at once: the quit channel and the
  results channel it returns are both closed (and empty), and no engine is called.
\<close>

theorem VerifyHeaders_empty:
  "VerifyHeaders h quit tr chain [] =
     Inr ((\<lparr>closed = True, buffered = [], capacity = 0\<rparr>,
           \<lparr>closed = True, buffered = [], capacity = 1\<rparr>), h, tr) \<and>
   enginesCalled tr (VerifyHeaders h quit tr chain []) = Some [] \<and>
   newCalls tr (VerifyHeaders h quit tr chain []) = []"
  by (simp add: VerifyHeaders_def enginesCalled_def newCalls_def)

theorem VerifyHeaders_empty_witness:
  "returned (VerifyHeaders (testHybrid noErrors noErrors 100) neverQuit [] 0 []) =
     Some (\<lparr>closed = True, buffered = [], capacity = 0\<rparr>,
           \<lparr>closed = True, buffered = [], capacity = 1\<rparr>) \<and>
   enginesCalled [] (VerifyHeaders (testHybrid noErrors noErrors 100) neverQuit [] 0 []) =
     Some []"
proof -
  note inst = VerifyHeaders_empty [of "testHybrid noErrors noErrors 100" neverQuit "[]" 0]
  have "returned (VerifyHeaders (testHybrid noErrors noErrors 100) neverQuit [] 0 []) =
     Some (\<lparr>closed = True, buffered = [], capacity = 0\<rparr>,
           \<lparr>closed = True, buffered = [], capacity = 1\<rparr>)"
    by (simp only: inst [THEN conjunct1] returned_def sum.case prod.case)
  then show ?thesis
    using inst [THEN conjunct2, THEN conjunct1] by (rule conjI)
qed

text \<open>
  C9. The sum in \<^verbatim>\<open>CalcDifficulty\<close> wraps around: for a parent numbered \<open>2^64 - 1\<close>
  the selecting number is 0, so for every transition height above 0 the PoS engine is
  called, although the parent's own number is in the PoA era.
\<close>

theorem CalcDifficulty_wraps_around:
  assumes pos: "posEngine h = Some pe"
    and top: "Number parent = 18446744073709551615"
    and above: "0 < transitionBlock h"
  shows
    "Number parent + 1 = 0 \<and>
     shouldUsePoA h (Number parent) \<and>
     \<not> shouldUsePoA h (Number parent + 1) \<and>
     CalcDifficulty h now tr chain tm parent =
       Inr (eCalcDifficulty pe tr chain tm parent, snd (selectEngine h now 0),
            tr @ [(PoS, CallCalcDifficulty chain tm parent)]) \<and>
     delegatesTo PoS tr (CalcDifficulty h now tr chain tm parent)"
proof -
  have zero: "Number parent + 1 = 0"
    by (simp add: top)
  have e: "engineOf h (if Number parent + 1 < transitionBlock h then PoS else PoA) = Some pe"
    using pos above by (simp add: zero)
  have run: "CalcDifficulty h now tr chain tm parent =
       Inr (eCalcDifficulty pe tr chain tm parent, snd (selectEngine h now 0),
            tr @ [(PoS, CallCalcDifficulty chain tm parent)])"
    using CalcDifficulty_eq [OF e, of now tr chain tm] above by (simp add: zero)
  have era: "shouldUsePoA h (Number parent)"
    by (simp add: shouldUsePoA_def top le_uint64_max)
  have next_era: "\<not> shouldUsePoA h (Number parent + 1)"
    using above by (simp add: shouldUsePoA_def zero not_le)
  show ?thesis
    using zero era next_era run by (simp add: delegatesTo_def enginesCalled_one)
qed

theorem CalcDifficulty_wraps_around_witness:
  "delegatesTo PoS []
     (CalcDifficulty (testHybrid noErrors noErrors 100) 0 [] 0 0
        (testHeader 18446744073709551615)) \<and>
   shouldUsePoA (testHybrid noErrors noErrors 100) (Number (testHeader 18446744073709551615))"
proof -
  let ?h = "testHybrid noErrors noErrors 100"
  have pos: "posEngine ?h = Some (trackingMockEngine noErrors)"
    by (simp add: testHybrid_def)
  have top: "Number (testHeader 18446744073709551615) = 18446744073709551615"
    by (simp add: testHeader_def)
  have above: "0 < transitionBlock ?h"
    by (simp add: testHybrid_def)
  show ?thesis
    using CalcDifficulty_wraps_around [OF pos top above, of 0 "[]" 0 0] by blast
qed

text \<open>
  C10. For a header whose number is the transition height, \<^verbatim>\<open>Prepare\<close> replaces
  \<open>Extra\<close> as a whole: what the header carried in \<open>Extra\<close> before the call has no
  influence on the header handed to the PoA engine nor on anything \<^verbatim>\<open>Prepare\<close> returns.
\<close>

theorem Prepare_transition_forgets_Extra:
  assumes at: "Number hdr = transitionBlock h"
  shows
    "Prepare h now tr chain (hdr\<lparr>Extra := before\<rparr>) = Prepare h now tr chain hdr \<and>
     (\<forall>ae. poaEngine h = Some ae \<longrightarrow>
        newCalls tr (Prepare h now tr chain (hdr\<lparr>Extra := before\<rparr>)) =
          [(PoA, CallPrepare chain (hdr\<lparr>Extra := checkpointExtra (initialSigners h)\<rparr>))] \<and>
        returned (Prepare h now tr chain (hdr\<lparr>Extra := before\<rparr>)) =
          Some (ePrepare ae tr chain (hdr\<lparr>Extra := checkpointExtra (initialSigners h)\<rparr>)))"
proof -
  have same: "Prepare h now tr chain (hdr\<lparr>Extra := before\<rparr>) = Prepare h now tr chain hdr"
    using at by (simp add: Prepare_def Let_def prepareTransitionBlock_forgets)
  have "newCalls tr (Prepare h now tr chain hdr) =
          [(PoA, CallPrepare chain (hdr\<lparr>Extra := checkpointExtra (initialSigners h)\<rparr>))] \<and>
        returned (Prepare h now tr chain hdr) =
          Some (ePrepare ae tr chain (hdr\<lparr>Extra := checkpointExtra (initialSigners h)\<rparr>))"
    if "poaEngine h = Some ae" for ae
    using at by (simp add: Prepare_def Let_def prepareTransitionBlock_eq [OF that] newCalls_def
        returned_def)
  then show ?thesis
    unfolding same by blast
qed

theorem Prepare_transition_forgets_Extra_witness:
  "returned
     (Prepare (testHybrid noErrors noErrors 100) 0 [] 0 ((testHeader 100)\<lparr>Extra := [1, 2, 3]\<rparr>)) =
   Some ((testHeader 100)\<lparr>Extra := checkpointExtra defaultInitialSigners\<rparr>, None) \<and>
   Prepare (testHybrid noErrors noErrors 100) 0 [] 0 ((testHeader 100)\<lparr>Extra := [1, 2, 3]\<rparr>) =
     Prepare (testHybrid noErrors noErrors 100) 0 [] 0 (testHeader 100)"
proof -
  let ?h = "testHybrid noErrors noErrors 100"
  have at: "Number (testHeader 100) = transitionBlock ?h"
    by (simp add: testHybrid_def testHeader_def)
  have poa: "poaEngine ?h = Some (trackingMockEngine noErrors)"
    by (simp add: testHybrid_def)
  have S: "initialSigners ?h = defaultInitialSigners"
    by (simp add: testHybrid_def)
  have mock: "ePrepare (trackingMockEngine noErrors) tr chain x = (x, None)" for tr chain x
    by (simp add: trackingMockEngine_def noErrors_def)
  note inst = Prepare_transition_forgets_Extra [OF at, of 0 "[]" 0 "[1, 2, 3]"]
  have "returned (Prepare ?h 0 [] 0 ((testHeader 100)\<lparr>Extra := [1, 2, 3]\<rparr>)) =
      Some ((testHeader 100)\<lparr>Extra := checkpointExtra defaultInitialSigners\<rparr>, None)"
    using inst [THEN conjunct2, rule_format, OF poa, THEN conjunct2] by (simp add: S mock)
  then show ?thesis
    using inst [THEN conjunct1] by (rule conjI)
qed


end
